theory Spec2Isabelle
  imports Complex_Main "HOL-Library.Multiset" "HOL-Library.Sublist" "HOL-Library.Log_Nat"
begin

section \<open>Data model of \<open>gdsfactory/port.py\<close>\<close>

text \<open>
  Exceptions of the Python source are values of \<open>error\<close>; a function that can raise
  returns \<open>error + 'a\<close>, with \<open>Inl\<close> for the exception.
\<close>

datatype error = ValueError | TypeError | OverflowError | PortOrientationError | RadiusViolation

type_synonym Layer = "int \<times> int"

text \<open>
  The attributes of a port that the code reads.  \<open>p.orientation\<close> is a float or
  \<open>None\<close>, \<open>p.angle\<close> is the integer number of quarter turns, \<open>p.d.angle\<close> the angle
  in degrees, \<open>p.x\<close> and \<open>p.y\<close> are grid coordinates.  Angles and lengths are exact
  reals; the arithmetic of \<open>cutback_loss\<close> is modelled in float64 below.
\<close>

record Port =
  port_name :: string
  port_orientation :: "real option"
  port_angle :: int
  port_dangle :: real
  port_x :: int
  port_y :: int
  port_width :: real
  port_layer :: Layer
  port_type :: string

text \<open>
  Ports are Python objects handled by reference: a list of ports is a list of references
  \<open>'r\<close>, and a view \<open>P :: 'r \<Rightarrow> Port\<close> reads the object behind a reference.  A list of
  port values is the case \<open>P = (\<lambda>p. p)\<close>.

  \<open>PortsMap\<close> is the dict \<open>{x: [] for x in ["E", "N", "W", "S"]}\<close>; the code only looks
  up these four keys.
\<close>

type_synonym 'r PortsMap = "string \<Rightarrow> 'r list"

definition direction_ports_init :: "'r PortsMap" where
  "direction_ports_init = (\<lambda>_. [])"

definition append_port :: "'r PortsMap \<Rightarrow> string \<Rightarrow> 'r \<Rightarrow> 'r PortsMap" where
  "append_port dp d p = dp(d := dp d @ [p])"

text \<open>Python's \<open>a % m\<close> on floats, for a positive \<open>m\<close>.\<close>

definition py_fmod :: "real \<Rightarrow> real \<Rightarrow> real" where
  "py_fmod a m = a - m * of_int \<lfloor>a / m\<rfloor>"

text \<open>
  The \<open>if/elif\<close> chain that every classifying function of \<open>port.py\<close> repeats:
  \<^verbatim>\<open>
  if angle <= 45 or angle >= 315:    direction_ports["E"].append(p)
  elif angle <= 135 and angle >= 45: direction_ports["N"].append(p)
  elif angle <= 225 and angle >= 135: direction_ports["W"].append(p)
  else:                              direction_ports["S"].append(p)
  \<close>
\<close>

definition direction_of_angle :: "real \<Rightarrow> string" where
  "direction_of_angle a =
     (if a \<le> 45 \<or> a \<ge> 315 then ''E''
      else if a \<le> 135 \<and> a \<ge> 45 then ''N''
      else if a \<le> 225 \<and> a \<ge> 135 then ''W''
      else ''S'')"

subsection \<open>\<open>get_ports_facing\<close>\<close>

definition valid_directions :: "string list" where
  "valid_directions = [''E'', ''N'', ''W'', ''S'']"

text \<open>The loop body of \<open>get_ports_facing\<close>: an undefined orientation counts as angle 0.\<close>

definition facing_step :: "('r \<Rightarrow> Port) \<Rightarrow> 'r \<Rightarrow> 'r PortsMap \<Rightarrow> 'r PortsMap" where
  "facing_step P p dp =
     (let angle = (case port_orientation (P p) of Some \<theta> \<Rightarrow> py_fmod \<theta> 360 | None \<Rightarrow> 0)
      in append_port dp (direction_of_angle angle) p)"

definition get_ports_facing :: "('r \<Rightarrow> Port) \<Rightarrow> 'r list \<Rightarrow> string \<Rightarrow> error + 'r list" where
  "get_ports_facing P ports direction =
     (if direction \<notin> set valid_directions then Inl PortOrientationError
      else Inr (fold (facing_step P) ports direction_ports_init direction))"

subsection \<open>The classification loop of \<open>rename_ports_by_orientation\<close>\<close>

text \<open>Lines 607 to 622: a port without orientation goes to the South list.\<close>

definition orientation_step :: "('r \<Rightarrow> Port) \<Rightarrow> 'r \<Rightarrow> 'r PortsMap \<Rightarrow> 'r PortsMap" where
  "orientation_step P p dp =
     (case port_orientation (P p) of
        Some \<theta> \<Rightarrow> append_port dp (direction_of_angle (py_fmod \<theta> 360)) p
      | None \<Rightarrow> append_port dp ''S'' p)"

definition classify_by_orientation :: "('r \<Rightarrow> Port) \<Rightarrow> 'r list \<Rightarrow> 'r PortsMap" where
  "classify_by_orientation P ports = fold (orientation_step P) ports direction_ports_init"

subsection \<open>\<open>sort_ports_clockwise\<close> and \<open>sort_ports_counter_clockwise\<close>\<close>

text \<open>
  Both functions classify with \<open>angle = p.angle * 90\<close>.  Python's \<open>list.sort\<close> is stable,
  as is \<open>sort_key\<close>.
\<close>

definition quadrant_step :: "('r \<Rightarrow> Port) \<Rightarrow> 'r \<Rightarrow> 'r PortsMap \<Rightarrow> 'r PortsMap" where
  "quadrant_step P p dp =
     append_port dp (direction_of_angle (of_int (port_angle (P p) * 90))) p"

definition sort_ports_clockwise :: "('r \<Rightarrow> Port) \<Rightarrow> 'r list \<Rightarrow> 'r list" where
  "sort_ports_clockwise P ports =
     (let direction_ports = fold (quadrant_step P) ports direction_ports_init;
          east_ports = sort_key (\<lambda>p. - port_y (P p)) (direction_ports ''E'');
          north_ports = sort_key (\<lambda>p. port_x (P p)) (direction_ports ''N'');
          west_ports = sort_key (\<lambda>p. port_y (P p)) (direction_ports ''W'');
          south_ports = sort_key (\<lambda>p. - port_x (P p)) (direction_ports ''S'')
      in west_ports @ north_ports @ east_ports @ south_ports)"

definition sort_ports_counter_clockwise :: "('r \<Rightarrow> Port) \<Rightarrow> 'r list \<Rightarrow> 'r list" where
  "sort_ports_counter_clockwise P ports =
     (let direction_ports = fold (quadrant_step P) ports direction_ports_init;
          east_ports = sort_key (\<lambda>p. port_y (P p)) (direction_ports ''E'');
          north_ports = sort_key (\<lambda>p. - port_x (P p)) (direction_ports ''N'');
          west_ports = sort_key (\<lambda>p. - port_y (P p)) (direction_ports ''W'');
          south_ports = sort_key (\<lambda>p. port_x (P p)) (direction_ports ''S'')
      in east_ports @ north_ports @ west_ports @ south_ports)"

subsection \<open>\<open>select_ports\<close>\<close>

text \<open>
  The keyword arguments of \<open>select_ports\<close>.  A test such as \<open>if prefix:\<close> is Python
  truthiness: \<open>None\<close>, the empty string, the empty list and 0 all skip the filter.
  Layers are compared after \<open>get_layer\<close>, which is not part of this module; the model
  keeps layers resolved.
\<close>

record select_kwargs =
  sel_layer :: "Layer option"
  sel_prefix :: "string option"
  sel_suffix :: "string option"
  sel_orientation :: "real option"
  sel_width :: "real option"
  sel_layers_excluded :: "Layer list option"
  sel_port_type :: "string option"
  sel_names :: "string list option"
  sel_clockwise :: bool
  sel_sort_ports :: bool

definition truthy_list :: "'a list option \<Rightarrow> bool" where
  "truthy_list v = (case v of None \<Rightarrow> False | Some xs \<Rightarrow> xs \<noteq> [])"

definition truthy_num :: "real option \<Rightarrow> bool" where
  "truthy_num v = (case v of None \<Rightarrow> False | Some x \<Rightarrow> x \<noteq> 0)"

text \<open>\<open>np.isclose(a, b)\<close> with its default tolerances.\<close>

definition np_isclose :: "real \<Rightarrow> real \<Rightarrow> bool" where
  "np_isclose a b = (\<bar>a - b\<bar> \<le> 1 / 10 ^ 8 + 1 / 10 ^ 5 * \<bar>b\<bar>)"

definition select_ports :: "('r \<Rightarrow> Port) \<Rightarrow> 'r list \<Rightarrow> select_kwargs \<Rightarrow> 'r list" where
  "select_ports P ports kw =
     (let ports = (case sel_layer kw of
                     Some l \<Rightarrow> filter (\<lambda>p. port_layer (P p) = l) ports
                   | None \<Rightarrow> ports);
          ports = (if truthy_list (sel_prefix kw)
                   then filter (\<lambda>p. prefix (the (sel_prefix kw)) (port_name (P p))) ports
                   else ports);
          ports = (if truthy_list (sel_suffix kw)
                   then filter (\<lambda>p. suffix (the (sel_suffix kw)) (port_name (P p))) ports
                   else ports);
          ports = (case sel_orientation kw of
                     Some a \<Rightarrow> filter (\<lambda>p. np_isclose (port_dangle (P p)) a) ports
                   | None \<Rightarrow> ports);
          ports = (if truthy_list (sel_layers_excluded kw)
                   then filter (\<lambda>p. port_layer (P p) \<notin> set (the (sel_layers_excluded kw))) ports
                   else ports);
          ports = (if truthy_num (sel_width kw)
                   then filter (\<lambda>p. port_width (P p) = the (sel_width kw)) ports
                   else ports);
          ports = (if truthy_list (sel_port_type kw)
                   then filter (\<lambda>p. port_type (P p) = the (sel_port_type kw)) ports
                   else ports);
          ports = (if truthy_list (sel_names kw)
                   then filter (\<lambda>p. port_name (P p) \<in> set (the (sel_names kw))) ports
                   else ports)
      in if sel_sort_ports kw
         then (if sel_clockwise kw then sort_ports_clockwise P ports
               else sort_ports_counter_clockwise P ports)
         else ports)"

definition select_all :: select_kwargs where
  "select_all = \<lparr>sel_layer = None, sel_prefix = None, sel_suffix = None,
     sel_orientation = None, sel_width = None, sel_layers_excluded = None,
     sel_port_type = None, sel_names = None, sel_clockwise = True, sel_sort_ports = False\<rparr>"

subsection \<open>\<open>_rename_ports_facing_side\<close> and \<open>rename_ports_by_orientation\<close>\<close>

text \<open>Python's \<open>str(i)\<close> for a list index.\<close>

definition digit_char :: "nat \<Rightarrow> char" where
  "digit_char d = ''0123456789'' ! d"

fun str_nat :: "nat \<Rightarrow> string" where
  "str_nat n = (if n < 10 then [digit_char n] else str_nat (n div 10) @ [digit_char (n mod 10)])"

declare str_nat.simps [simp del]

text \<open>
  The two stable sorts of one side: East and West lists by x and then by y, South and
  North lists by y and then by x.
\<close>

definition facing_side_sort :: "('r \<Rightarrow> Port) \<Rightarrow> string \<Rightarrow> 'r list \<Rightarrow> 'r list" where
  "facing_side_sort P direction list_ports =
     (let list_ports =
            (if direction \<in> set [''E'', ''W'']
             then sort_key (\<lambda>p. port_y (P p)) (sort_key (\<lambda>p. port_x (P p)) list_ports)
             else list_ports)
      in if direction \<in> set [''S'', ''N'']
         then sort_key (\<lambda>p. port_x (P p)) (sort_key (\<lambda>p. port_y (P p)) list_ports)
         else list_ports)"

text \<open>
  \<open>for i, p in enumerate(list_ports): p.name = prefix + direction + str(i)\<close>.  The
  assignment mutates the port object, so it updates the view.
\<close>

fun assign_names :: "string \<Rightarrow> nat \<Rightarrow> 'r list \<Rightarrow> ('r \<Rightarrow> Port) \<Rightarrow> ('r \<Rightarrow> Port)" where
  "assign_names pre i [] P = P"
| "assign_names pre i (p # ps) P =
     assign_names pre (Suc i) ps (P(p := (P p)\<lparr>port_name := pre @ str_nat i\<rparr>))"

definition rename_ports_facing_side ::
  "'r PortsMap \<Rightarrow> string \<Rightarrow> ('r \<Rightarrow> Port) \<Rightarrow> ('r \<Rightarrow> Port)" where
  "rename_ports_facing_side direction_ports pre P =
     fold (\<lambda>direction P.
             assign_names (pre @ direction) 0
               (facing_side_sort P direction (direction_ports direction)) P)
          [''E'', ''N'', ''W'', ''S''] P"

text \<open>
  \<open>rename_ports_by_orientation\<close> returns the component it was given, with the selected
  ports renamed in place: the result is the new view of the port objects.  Setting
  \<open>p.parent\<close> touches no attribute of the model.
\<close>

definition rename_ports_by_orientation ::
  "('r \<Rightarrow> Port) \<Rightarrow> 'r list \<Rightarrow> Layer list \<Rightarrow> select_kwargs \<Rightarrow>
   ('r PortsMap \<Rightarrow> string \<Rightarrow> ('r \<Rightarrow> Port) \<Rightarrow> ('r \<Rightarrow> Port)) \<Rightarrow> string \<Rightarrow> ('r \<Rightarrow> Port)" where
  "rename_ports_by_orientation P component_ports layers_excluded kw function pre =
     (let ports = select_ports P component_ports kw;
          ports_on_layer = filter (\<lambda>p. port_layer (P p) \<notin> set layers_excluded) ports;
          direction_ports = classify_by_orientation P ports_on_layer
      in function direction_ports pre P)"

definition port_names :: "('r \<Rightarrow> Port) \<Rightarrow> 'r list \<Rightarrow> string list" where
  "port_names P component_ports = map (\<lambda>p. port_name (P p)) component_ports"

subsection \<open>\<open>Port.__init__\<close>\<close>

record CrossSection =
  xs_width :: real
  xs_layer :: Layer
  xs_radius :: "real option"
  xs_radius_min :: "real option"

text \<open>
  The constructor checks its arguments and hands them to the constructor of the base
  class \<open>kf.Port\<close>; the model returns the arguments of that call.  \<open>float(None)\<close> and
  \<open>None < 0\<close> raise \<open>TypeError\<close>.
\<close>

record PortArgs =
  arg_name :: string
  arg_layer :: Layer
  arg_dwidth :: real
  arg_port_type :: string
  arg_angle :: real
  arg_center :: "real \<times> real"

definition Port_init ::
  "string \<Rightarrow> real option \<Rightarrow> real \<times> real \<Rightarrow> real option \<Rightarrow> Layer option \<Rightarrow> string \<Rightarrow>
   CrossSection option \<Rightarrow> error + PortArgs" where
  "Port_init name orientation center width layer ptype cross_section =
     (let orientation = (if truthy_num orientation
                         then map_option (\<lambda>a. py_fmod a 360) orientation else orientation)
      in if cross_section = None \<and> layer = None then Inl ValueError
         else if cross_section = None \<and> width = None then Inl ValueError
         else
           let layer = (case (cross_section, layer) of
                          (Some xs, None) \<Rightarrow> Some (xs_layer xs) | _ \<Rightarrow> layer);
               width = (case width of
                          None \<Rightarrow> map_option xs_width cross_section | Some w \<Rightarrow> Some w)
           in case (width, orientation, layer) of
                (Some w, Some a, Some l) \<Rightarrow>
                  if w < 0 then Inl ValueError
                  else Inr \<lparr>arg_name = name, arg_layer = l, arg_dwidth = w,
                            arg_port_type = ptype, arg_angle = a, arg_center = center\<rparr>
              | (Some w, _, _) \<Rightarrow> if w < 0 then Inl ValueError else Inl TypeError
              | _ \<Rightarrow> Inl TypeError)"

section \<open>\<open>components/bend_euler.py\<close>\<close>

text \<open>\<open>np.round(v, 3)\<close>: to three decimals, a tie going to the even neighbour.\<close>

definition round_half_even :: "real \<Rightarrow> int" where
  "round_half_even v =
     (let f = \<lfloor>v\<rfloor>; d = v - of_int f
      in if d < 1 / 2 then f else if 1 / 2 < d then f + 1
         else if even f then f else f + 1)"

definition round3 :: "real \<Rightarrow> real" where
  "round3 v = of_int (round_half_even (v * 1000)) / 1000"

text \<open>What \<open>bend_euler\<close> reads of the path that \<open>euler\<close> returns.\<close>

record Path =
  path_length :: real
  path_first_x :: real
  path_last_x :: real
  path_Rmin :: real

type_synonym euler_fn = "real \<Rightarrow> real \<Rightarrow> real \<Rightarrow> bool \<Rightarrow> nat option \<Rightarrow> Path"

text \<open>
  Modelled from the spec: \<open>CrossSection.validate_radius\<close> is not under src/.  Section 4.3:
  the bend fails with \<open>RadiusViolation\<close> if the radius is smaller than the
  cross-section's declared minimum (and the caller has not allowed the violation, which
  \<open>bend_euler\<close> tests before the call).
\<close>

definition validate_radius :: "CrossSection \<Rightarrow> real \<Rightarrow> error + unit" where
  "validate_radius x radius =
     (case xs_radius_min x of
        Some m \<Rightarrow> if radius < m then Inl RadiusViolation else Inr ()
      | None \<Rightarrow> Inr ())"

text \<open>
  Modelled from the spec: \<open>gdsfactory.path.euler\<close> is not under src/, so \<open>bend_euler\<close>
  takes the generator as a parameter.  For the examples, \<open>euler_arc90\<close> is the curve
  with no Euler portion (\<open>p = 0\<close>) and angle 90: the quarter circle of the requested
  radius, whose minimum radius of curvature is that radius.
\<close>

definition euler_arc90 :: euler_fn where
  "euler_arc90 radius angle p use_eff npoints =
     \<lparr>path_length = radius * pi / 2, path_first_x = 0, path_last_x = radius,
      path_Rmin = radius\<rparr>"

record BendInfo =
  info_length :: real
  info_dy :: real
  info_radius_min :: real
  info_radius :: real

text \<open>
  The component returned: the wire corner of the cross-section, or the extruded Euler
  path with its info, whether it was mirrored, and the \<open>top\<close> and \<open>bottom\<close> arguments
  of \<open>add_bbox\<close>.
\<close>

datatype Bend =
  WireCorner CrossSection
| EulerBend CrossSection BendInfo bool "real option" "real option"

text \<open>\<open>int(v)\<close> on a float truncates towards zero.\<close>

definition py_int :: "real \<Rightarrow> int" where
  "py_int v = (if 0 \<le> v then \<lfloor>v\<rfloor> else \<lceil>v\<rceil>)"

text \<open>\<open>a or b\<close> on an optional number: \<open>None\<close> and 0 give \<open>b\<close>.\<close>

definition num_or :: "real option \<Rightarrow> real option \<Rightarrow> real option" where
  "num_or a b = (if truthy_num a then a else b)"

definition bend_euler ::
  "euler_fn \<Rightarrow> CrossSection \<Rightarrow> real option \<Rightarrow> real \<Rightarrow> real \<Rightarrow> bool \<Rightarrow> nat option \<Rightarrow>
   Layer option \<Rightarrow> real option \<Rightarrow> string \<Rightarrow> bool \<Rightarrow> error + Bend" where
  "bend_euler euler x radius angle p with_arc_floorplan npoints layer width direction
     allow_min_radius_violation =
     (case num_or radius (xs_radius x) of
        None \<Rightarrow> Inr (WireCorner x)
      | Some radius \<Rightarrow>
          let x = (if layer \<noteq> None \<or> truthy_num width
                   then x\<lparr>xs_layer := (case layer of Some l \<Rightarrow> l | None \<Rightarrow> xs_layer x),
                          xs_width := (if truthy_num width then the width else xs_width x)\<rparr>
                   else x);
              pth = euler radius angle p with_arc_floorplan npoints;
              info = \<lparr>info_length = round3 (path_length pth),
                      info_dy = round3 \<bar>path_first_x pth - path_last_x pth\<bar>,
                      info_radius_min = round3 (path_Rmin pth),
                      info_radius = radius\<rparr>;
              mirrored = (direction = ''cw'');
              top = (if py_int angle \<in> {180, - 180, - 90} then None else Some 0);
              bottom = (if py_int angle \<in> {- 90} then Some 0 else None)
          in case (if \<not> allow_min_radius_violation then validate_radius x radius else Inr ()) of
               Inl e \<Rightarrow> Inl e
             | Inr _ \<Rightarrow> Inr (EulerBend x info mirrored top bottom))"

section \<open>\<open>components/cutback_loss.py\<close>\<close>

text \<open>
  The list comprehensions stop at the first element whose conversion raises.
\<close>

fun collect :: "(error + 'a) list \<Rightarrow> error + 'a list" where
  "collect [] = Inr []"
| "collect (Inl e # rs) = Inl e"
| "collect (Inr v # rs) = (case collect rs of Inl e \<Rightarrow> Inl e | Inr vs \<Rightarrow> Inr (v # vs))"

text \<open>
  The arithmetic of \<open>cutback_loss\<close> is numpy's float64 arithmetic.  A finite float64
  is an integer multiple of \<open>2^-1074\<close> whose significand has at most 53 bits and whose
  magnitude is below \<open>2^1024\<close>.  \<open>float64 v\<close> rounds the real \<open>v\<close> to the nearest such
  value, a tie going to the even significand, as every IEEE operation rounds its exact
  result; \<open>None\<close> is overflow to infinity.  In units of \<open>2^-1074\<close> the spacing of the
  float64 values around \<open>y\<close> is \<open>2^j\<close>, where \<open>j\<close> is the number of bits of \<open>y\<close>
  beyond 53.
\<close>

definition float64 :: "real \<Rightarrow> real option" where
  "float64 v =
     (let y = v * 2 ^ 1074;
          j = nat (bitlen \<lfloor>\<bar>y\<bar>\<rfloor> - 53);
          n = round_half_even (y / 2 ^ j) * 2 ^ j
      in if \<bar>n\<bar> < 2 ^ 2098 then Some (of_int n / 2 ^ 1074) else None)"

text \<open>
  A float64 result: a finite value, an infinity or \<open>nan\<close>.  \<open>fdiv a d\<close> is the float64
  division of the result \<open>a\<close> by the finite float64 \<open>d\<close>: a nonzero value over zero is
  infinite, zero over zero is \<open>nan\<close>, and a quotient too large overflows to infinity.
\<close>

datatype fp = Finite real | Infinite | NotANumber

fun fdiv :: "fp \<Rightarrow> real \<Rightarrow> fp" where
  "fdiv NotANumber d = NotANumber"
| "fdiv Infinite d = Infinite"
| "fdiv (Finite a) d =
     (if d = 0 then (if a = 0 then NotANumber else Infinite)
      else case float64 (a / d) of None \<Rightarrow> Infinite | Some q \<Rightarrow> Finite q)"

text \<open>
  \<open>loss / loss_dB / cols\<close> for one entry \<open>l\<close> of \<open>loss\<close>.  The arguments \<open>l\<close> and
  \<open>loss_dB\<close> are finite float64 values, given as the reals they denote; the integer is
  converted to float64, which fails with \<open>OverflowError\<close> when it is too large.
\<close>

definition loss_quotient :: "real \<Rightarrow> int \<Rightarrow> real \<Rightarrow> error + fp" where
  "loss_quotient loss_dB n l =
     (case float64 (of_int n) of
        None \<Rightarrow> Inl OverflowError
      | Some c \<Rightarrow> Inr (fdiv (fdiv (Finite l) loss_dB) c))"

text \<open>
  \<open>rows_list = loss / loss_dB / cols; rows_list = rows_list // 2 * 2 + 1\<close> and then
  \<open>int(rows)\<close>, for one entry of \<open>loss\<close>.  Floor division by 2 is exact on a finite
  float64, and it turns an infinity into \<open>nan\<close>, on which \<open>int\<close> raises
  \<open>ValueError\<close>; the product and the sum are rounded, and \<open>int\<close> of an infinity
  raises \<open>OverflowError\<close>.
\<close>

definition derive_rows :: "real \<Rightarrow> int \<Rightarrow> real \<Rightarrow> error + int" where
  "derive_rows loss_dB cols l =
     (case loss_quotient loss_dB cols l of
        Inl e \<Rightarrow> Inl e
      | Inr (Finite q) \<Rightarrow>
          (case float64 (of_int \<lfloor>q / 2\<rfloor> * 2) of
             None \<Rightarrow> Inl OverflowError
           | Some t \<Rightarrow>
               (case float64 (t + 1) of
                  None \<Rightarrow> Inl OverflowError
                | Some rows \<Rightarrow> Inr (py_int rows)))
      | Inr _ \<Rightarrow> Inl ValueError)"

text \<open>\<open>cols_list = loss / loss_dB / rows\<close> and then \<open>int(cols)\<close>.\<close>

definition derive_cols :: "real \<Rightarrow> int \<Rightarrow> real \<Rightarrow> error + int" where
  "derive_cols loss_dB rows l =
     (case loss_quotient loss_dB rows l of
        Inl e \<Rightarrow> Inl e
      | Inr (Finite q) \<Rightarrow> Inr (py_int q)
      | Inr Infinite \<Rightarrow> Inl OverflowError
      | Inr NotANumber \<Rightarrow> Inl ValueError)"

definition truthy_int :: "int option \<Rightarrow> bool" where
  "truthy_int v = (case v of None \<Rightarrow> False | Some n \<Rightarrow> n \<noteq> 0)"

text \<open>
  The result lists the \<open>(rows, cols)\<close> arguments of the calls of \<open>cutback\<close>, one per
  target loss.
\<close>

definition cutback_loss ::
  "real list \<Rightarrow> real \<Rightarrow> int option \<Rightarrow> int option \<Rightarrow> error + (int \<times> int) list" where
  "cutback_loss loss loss_dB cols rows =
     (if truthy_int rows \<and> truthy_int cols then Inl ValueError
      else case rows of
        None \<Rightarrow>
          (case cols of
             None \<Rightarrow> Inl TypeError
           | Some c \<Rightarrow>
               (case collect (map (derive_rows loss_dB c) loss) of
                  Inl e \<Rightarrow> Inl e
                | Inr rows_list \<Rightarrow> Inr (map (\<lambda>rows. (rows, c)) rows_list)))
      | Some r \<Rightarrow>
          (case cols of
             None \<Rightarrow>
               (case collect (map (derive_cols loss_dB r) loss) of
                  Inl e \<Rightarrow> Inl e
                | Inr cols_list \<Rightarrow> Inr (map (\<lambda>cols. (r, cols)) cols_list))
           | Some c \<Rightarrow> Inl ValueError))"

section \<open>\<open>components/pad.py\<close>\<close>

text \<open>
  The first loop of \<open>pad\<close>: every offset grows the running \<open>size\<close> (here \<open>sz\<close>), and each grown size
  is appended to \<open>sizes\<close>.
\<close>

fun grow_sizes :: "real \<times> real \<Rightarrow> real list \<Rightarrow> (real \<times> real) list" where
  "grow_sizes sz [] = []"
| "grow_sizes sz (cladding_offset # offsets) =
     (let sz = (fst sz + 2 * cladding_offset, snd sz + 2 * cladding_offset)
      in sz # grow_sizes sz offsets)"

text \<open>
  The component: the \<open>info\<close> entries, the arguments of the \<open>compass\<close> calls (the pad
  rectangle and one per bbox layer) and the arguments of \<open>add_port\<close> for the port
  \<open>"pad"\<close>.
\<close>

record PadComponent =
  pad_info_size :: "real \<times> real"
  pad_info_xsize :: real
  pad_info_ysize :: real
  pad_rect :: "(real \<times> real) \<times> Layer \<times> real"
  pad_bbox :: "(Layer \<times> (real \<times> real)) list"
  pad_port_layer :: Layer
  pad_port_orientation :: real
  pad_port_width :: real

text \<open>
  The second loop, \<open>for layer, size in zip(bbox_layers, sizes)\<close>, binds the function's
  own variables \<open>layer\<close> and \<open>size\<close> (here \<open>sz\<close>): after it they hold the last pair of the zip.
\<close>

definition pad ::
  "real \<times> real \<Rightarrow> Layer \<Rightarrow> Layer list option \<Rightarrow> real list option \<Rightarrow> real \<Rightarrow> real \<Rightarrow>
   PadComponent" where
  "pad size0 layer0 bbox_layers bbox_offsets port_inclusion orientation =
     (let pairs = (if truthy_list bbox_layers \<and> truthy_list bbox_offsets
                   then zip (the bbox_layers) (grow_sizes size0 (the bbox_offsets))
                   else []);
          (layer, sz) = (if pairs = [] then (layer0, size0) else last pairs);
          width = (if orientation \<in> {0, 180} then snd sz else fst sz)
      in \<lparr>pad_info_size = size0, pad_info_xsize = fst size0, pad_info_ysize = snd size0,
          pad_rect = (size0, layer0, port_inclusion), pad_bbox = pairs,
          pad_port_layer = layer, pad_port_orientation = orientation,
          pad_port_width = width\<rparr>)"

section \<open>Example inputs\<close>

definition example_port :: "string \<Rightarrow> real option \<Rightarrow> int \<Rightarrow> int \<Rightarrow> Port" where
  "example_port name orientation x y =
     \<lparr>port_name = name, port_orientation = orientation, port_angle = 0, port_dangle = 0,
      port_x = x, port_y = y, port_width = 1 / 2, port_layer = (1, 0),
      port_type = ''optical''\<rparr>"

definition example_cross_section :: CrossSection where
  "example_cross_section =
     \<lparr>xs_width = 1 / 2, xs_layer = (1, 0), xs_radius = Some 10, xs_radius_min = Some 5\<rparr>"

text \<open>
  A component with two West ports named \<open>a1\<close> and \<open>b1\<close>, one above the other; its
  port objects are the references 0 and 1.
\<close>

definition example_view :: "nat \<Rightarrow> Port" where
  "example_view r = (if r = 0 then example_port ''a1'' (Some 180) 0 0
                     else example_port ''b1'' (Some 180) 0 1)"

section \<open>Auxiliary notions for the renaming proof\<close>

text \<open>
  Renaming changes nothing but names: \<open>geometry\<close> is a port without its name,
  \<open>set_names\<close> carries out a list of name assignments, and \<open>side_plan\<close> is the list of
  assignments that \<open>_rename_ports_facing_side\<close> makes for one direction.
\<close>

definition geometry :: "Port \<Rightarrow> Port" where
  "geometry p = p\<lparr>port_name := []\<rparr>"

definition set_names :: "('r \<times> string) list \<Rightarrow> ('r \<Rightarrow> Port) \<Rightarrow> ('r \<Rightarrow> Port)" where
  "set_names plan P = fold (\<lambda>(p, n) P. P(p := (P p)\<lparr>port_name := n\<rparr>)) plan P"

definition side_plan :: "('r \<Rightarrow> Port) \<Rightarrow> 'r PortsMap \<Rightarrow> string \<Rightarrow> string \<Rightarrow> ('r \<times> string) list" where
  "side_plan P direction_ports pre direction =
     (let sorted_ports = facing_side_sort P direction (direction_ports direction)
      in zip sorted_ports (map (\<lambda>i. (pre @ direction) @ str_nat i) [0..<length sorted_ports]))"

section \<open>Classification of ports by direction\<close>

text \<open>
  Each classification loop appends a port to the list of one direction, so the list of a
  direction is the input filtered by that direction, in input order.
\<close>

lemma fold_append_port:
  "fold (\<lambda>p dp. append_port dp (f p) p) ports dp d = dp d @ filter (\<lambda>p. f p = d) ports"
  by (induction ports arbitrary: dp) (auto simp: append_port_def)

lemma py_fmod_range:
  assumes m: "0 < m"
  shows "0 \<le> py_fmod a m \<and> py_fmod a m < m"
proof -
  have "m * of_int \<lfloor>a / m\<rfloor> \<le> m * (a / m)"
    using m by (intro mult_left_mono) auto
  then have lo: "m * of_int \<lfloor>a / m\<rfloor> \<le> a"
    using m by simp
  have "m * (a / m) < m * (of_int \<lfloor>a / m\<rfloor> + 1)"
  proof (rule mult_strict_left_mono)
    show "a / m < of_int \<lfloor>a / m\<rfloor> + 1" by linarith
    show "0 < m" by (rule m)
  qed
  then have hi: "a < m * of_int \<lfloor>a / m\<rfloor> + m"
    using m by (simp add: algebra_simps)
  show ?thesis
    using lo hi by (simp add: py_fmod_def)
qed

lemma classify_by_orientation_filter:
  "classify_by_orientation P ports d =
     filter (\<lambda>p. (case port_orientation (P p) of
                     Some \<theta> \<Rightarrow> direction_of_angle (py_fmod \<theta> 360) | None \<Rightarrow> ''S'') = d) ports"
proof -
  have "orientation_step P = (\<lambda>p dp. append_port dp
      (case port_orientation (P p) of Some \<theta> \<Rightarrow> direction_of_angle (py_fmod \<theta> 360) | None \<Rightarrow> ''S'') p)"
    by (auto simp: orientation_step_def fun_eq_iff split: option.splits)
  then show ?thesis
    by (simp add: classify_by_orientation_def fold_append_port direction_ports_init_def)
qed

lemma get_ports_facing_filter:
  "get_ports_facing P ports d =
     (if d \<in> set valid_directions
      then Inr (filter (\<lambda>p. direction_of_angle
              (case port_orientation (P p) of Some \<theta> \<Rightarrow> py_fmod \<theta> 360 | None \<Rightarrow> 0) = d) ports)
      else Inl PortOrientationError)"
proof -
  have "facing_step P = (\<lambda>p dp. append_port dp (direction_of_angle
      (case port_orientation (P p) of Some \<theta> \<Rightarrow> py_fmod \<theta> 360 | None \<Rightarrow> 0)) p)"
    by (simp add: facing_step_def fun_eq_iff)
  then show ?thesis
    by (simp add: get_ports_facing_def fold_append_port direction_ports_init_def)
qed

text \<open>
  Claim C1.  In \<open>rename_ports_by_orientation\<close>, a port with a defined orientation is
  classified by its angle modulo 360, which lies in [0, 360): East if the angle is at most
  45 or at least 315, else North up to 135, else West up to 225, else South.  Ports with
  orientations 10, 80, 170 and 260 go to E, N, W and S.
\<close>

theorem classifier_rule:
  assumes "p \<in> set ports" and "port_orientation (P p) = Some \<theta>"
  shows "(let a = py_fmod \<theta> 360; dp = classify_by_orientation P ports in
      0 \<le> a \<and> a < 360 \<and>
      (p \<in> set (dp ''E'') \<longleftrightarrow> a \<le> 45 \<or> a \<ge> 315) \<and>
      (p \<in> set (dp ''N'') \<longleftrightarrow> 45 < a \<and> a \<le> 135) \<and>
      (p \<in> set (dp ''W'') \<longleftrightarrow> 135 < a \<and> a \<le> 225) \<and>
      (p \<in> set (dp ''S'') \<longleftrightarrow> 225 < a \<and> a < 315)) \<and>
    (let p1 = example_port n1 (Some 10) x1 y1; p2 = example_port n2 (Some 80) x2 y2;
         p3 = example_port n3 (Some 170) x3 y3; p4 = example_port n4 (Some 260) x4 y4;
         dp = classify_by_orientation (\<lambda>q. q) [p1, p2, p3, p4]
     in dp ''E'' = [p1] \<and> dp ''N'' = [p2] \<and> dp ''W'' = [p3] \<and> dp ''S'' = [p4])"
proof -
  have general: "(let a = py_fmod \<theta> 360; dp = classify_by_orientation P ports in
      0 \<le> a \<and> a < 360 \<and>
      (p \<in> set (dp ''E'') \<longleftrightarrow> a \<le> 45 \<or> a \<ge> 315) \<and>
      (p \<in> set (dp ''N'') \<longleftrightarrow> 45 < a \<and> a \<le> 135) \<and>
      (p \<in> set (dp ''W'') \<longleftrightarrow> 135 < a \<and> a \<le> 225) \<and>
      (p \<in> set (dp ''S'') \<longleftrightarrow> 225 < a \<and> a < 315))"
    using assms py_fmod_range[of 360 \<theta>]
    by (auto simp: Let_def classify_by_orientation_filter direction_of_angle_def)
  have scenario: "(let p1 = example_port n1 (Some 10) x1 y1; p2 = example_port n2 (Some 80) x2 y2;
         p3 = example_port n3 (Some 170) x3 y3; p4 = example_port n4 (Some 260) x4 y4;
         dp = classify_by_orientation (\<lambda>q. q) [p1, p2, p3, p4]
     in dp ''E'' = [p1] \<and> dp ''N'' = [p2] \<and> dp ''W'' = [p3] \<and> dp ''S'' = [p4])"
    by (simp add: Let_def classify_by_orientation_filter direction_of_angle_def
        example_port_def py_fmod_def)
  show ?thesis using general scenario by blast
qed

text \<open>An orientation of 400 degrees is normalised to 40 and classified East.\<close>

theorem classifier_rule_witness:
  "example_port ''o1'' (Some 400) 0 0
     \<in> set (classify_by_orientation (\<lambda>q. q) [example_port ''o1'' (Some 400) 0 0] ''E'')
   \<and> py_fmod 400 360 = 40"
  using classifier_rule [of "example_port ''o1'' (Some 400) 0 0"
      "[example_port ''o1'' (Some 400) 0 0]" "\<lambda>q. q" 400]
  by (simp add: example_port_def Let_def py_fmod_def)

text \<open>
  Claim C4 as stated fails: \<open>get_ports_facing\<close> reads an undefined orientation as angle
  0, so the port is in the East list and the South list is empty.
\<close>

theorem undefined_orientation_counterexample:
  "get_ports_facing (\<lambda>q. q) [example_port ''o1'' None 0 0] ''S'' = Inr []
   \<and> get_ports_facing (\<lambda>q. q) [example_port ''o1'' None 0 0] ''E''
       = Inr [example_port ''o1'' None 0 0]"
  by (simp add: get_ports_facing_filter valid_directions_def direction_of_angle_def
      example_port_def)

text \<open>
  Claim C4, amended.  For a port whose orientation is undefined,
  \<open>rename_ports_by_orientation\<close> puts it in the South list and in no other, and
  \<open>get_ports_facing\<close> returns it for East and for no other direction; neither raises.
\<close>

theorem undefined_orientation_buckets:
  assumes "p \<in> set ports" and "port_orientation (P p) = None"
  shows "(p \<in> set (classify_by_orientation P ports d) \<longleftrightarrow> d = ''S'') \<and>
     (d \<in> set valid_directions \<longrightarrow>
        (\<exists>ps. get_ports_facing P ports d = Inr ps \<and> (p \<in> set ps \<longleftrightarrow> d = ''E'')))"
  using assms
  by (auto simp: classify_by_orientation_filter get_ports_facing_filter direction_of_angle_def)

theorem undefined_orientation_buckets_witness:
  "example_port ''o1'' None 0 0
     \<in> set (classify_by_orientation (\<lambda>q. q) [example_port ''o1'' None 0 0] ''S'')
   \<and> (\<exists>ps. get_ports_facing (\<lambda>q. q) [example_port ''o1'' None 0 0] ''E'' = Inr ps
         \<and> example_port ''o1'' None 0 0 \<in> set ps)"
  using undefined_orientation_buckets [of "example_port ''o1'' None 0 0"
      "[example_port ''o1'' None 0 0]" "\<lambda>q. q" "''S''"]
    undefined_orientation_buckets [of "example_port ''o1'' None 0 0"
      "[example_port ''o1'' None 0 0]" "\<lambda>q. q" "''E''"]
  by (simp add: example_port_def valid_directions_def)

text \<open>
  Claim C5 as stated fails: with no port facing West, \<open>get_ports_facing\<close> returns the
  empty list and raises nothing.
\<close>

theorem no_ports_facing_counterexample:
  "get_ports_facing (\<lambda>q. q) [example_port ''o1'' (Some 0) 0 0] ''W'' = Inr []"
  by (simp add: get_ports_facing_filter valid_directions_def direction_of_angle_def
      example_port_def py_fmod_def)

text \<open>
  Claim C5, amended.  \<open>get_ports_facing\<close> raises \<open>PortOrientationError\<close> when the
  direction is not one of E, N, W, S; for a valid direction it returns the ports
  classified there, in input order, which is the empty list when there is none.
\<close>

theorem get_ports_facing_errors:
  "(direction \<notin> {''E'', ''N'', ''W'', ''S''} \<longrightarrow>
      get_ports_facing P ports direction = Inl PortOrientationError) \<and>
   (direction \<in> {''E'', ''N'', ''W'', ''S''} \<longrightarrow>
      get_ports_facing P ports direction =
        Inr (filter (\<lambda>p. direction_of_angle
              (case port_orientation (P p) of Some \<theta> \<Rightarrow> py_fmod \<theta> 360 | None \<Rightarrow> 0)
                = direction) ports)) \<and>
   (direction \<in> {''E'', ''N'', ''W'', ''S''} \<and>
    (\<forall>p \<in> set ports. direction_of_angle
              (case port_orientation (P p) of Some \<theta> \<Rightarrow> py_fmod \<theta> 360 | None \<Rightarrow> 0)
                \<noteq> direction) \<longrightarrow>
      get_ports_facing P ports direction = Inr [])"
  by (auto simp: get_ports_facing_filter valid_directions_def filter_empty_conv)

theorem get_ports_facing_errors_witness:
  "get_ports_facing (\<lambda>q. q) [example_port ''o1'' (Some 0) 0 0] ''X''
     = Inl PortOrientationError
   \<and> get_ports_facing (\<lambda>q. q) [example_port ''o1'' (Some 0) 0 0] ''E''
     = Inr [example_port ''o1'' (Some 0) 0 0]
   \<and> get_ports_facing (\<lambda>q. q) [example_port ''o1'' (Some 0) 0 0] ''N'' = Inr []"
  using get_ports_facing_errors [of "''X''" "\<lambda>q. q" "[example_port ''o1'' (Some 0) 0 0]"]
    get_ports_facing_errors [of "''E''" "\<lambda>q. q" "[example_port ''o1'' (Some 0) 0 0]"]
    get_ports_facing_errors [of "''N''" "\<lambda>q. q" "[example_port ''o1'' (Some 0) 0 0]"]
  by (simp add: example_port_def direction_of_angle_def py_fmod_def)

section \<open>The width check of \<open>Port.__init__\<close>\<close>

text \<open>
  Claim C6 as stated fails: the constructor rejects a width only when it is negative
  (its message reads "Port width must be >=0"), so a port of width 0 is constructed.
\<close>

theorem port_width_zero_counterexample:
  "Port_init ''o1'' (Some 0) (0, 0) (Some 0) (Some (1, 0)) ''optical'' None =
     Inr \<lparr>arg_name = ''o1'', arg_layer = (1, 0), arg_dwidth = 0, arg_port_type = ''optical'',
          arg_angle = 0, arg_center = (0, 0)\<rparr>"
  by (simp add: Port_init_def truthy_num_def)

text \<open>
  Claim C6, amended.  Constructing a Port with a negative width fails with
  \<open>ValueError\<close>, and every port that the constructor builds has a width of at least
  zero.
\<close>

theorem port_width_nonnegative:
  "(width = Some w \<longrightarrow> w < 0 \<longrightarrow>
      Port_init name orientation center width layer ptype cross_section = Inl ValueError) \<and>
   (Port_init name orientation center width layer ptype cross_section = Inr args \<longrightarrow>
      0 \<le> arg_dwidth args)"
  by (auto simp: Port_init_def Let_def split: option.splits if_splits)

theorem port_width_nonnegative_witness:
  "Port_init ''o1'' (Some 90) (0, 0) (Some (- 1)) (Some (1, 0)) ''optical'' None = Inl ValueError
   \<and> (0::real) \<le> arg_dwidth \<lparr>arg_name = ''o1'', arg_layer = (1, 0), arg_dwidth = 1 / 2,
          arg_port_type = ''optical'', arg_angle = 90, arg_center = (0, 0)\<rparr>
   \<and> Port_init ''o1'' (Some 90) (0, 0) (Some (1 / 2)) (Some (1, 0)) ''optical'' None =
       Inr \<lparr>arg_name = ''o1'', arg_layer = (1, 0), arg_dwidth = 1 / 2,
          arg_port_type = ''optical'', arg_angle = 90, arg_center = (0, 0)\<rparr>"
  using port_width_nonnegative [of "Some (- 1)" "- 1" "''o1''" "Some 90" "(0, 0)" "Some (1, 0)"
      "''optical''" None]
    port_width_nonnegative [of "Some (1 / 2)" "1 / 2" "''o1''" "Some 90" "(0, 0)" "Some (1, 0)"
      "''optical''" None "\<lparr>arg_name = ''o1'', arg_layer = (1, 0), arg_dwidth = 1 / 2,
          arg_port_type = ''optical'', arg_angle = 90, arg_center = (0, 0)\<rparr>"]
  by (simp add: Port_init_def truthy_num_def py_fmod_def)

section \<open>The radius of \<open>bend_euler\<close>\<close>

text \<open>
  Claim C7 as stated fails: with radius \<open>None\<close> and a cross-section of radius 10 the
  result is a curved bend of radius 10, not the wire corner.
\<close>

theorem radius_none_counterexample:
  "(case bend_euler euler_arc90 example_cross_section None 90 0 True None None None ''ccw'' False of
      Inr (EulerBend x i m t b) \<Rightarrow> info_radius i = 10 \<and> info_radius_min i = 10
    | _ \<Rightarrow> False)"
  by (simp add: bend_euler_def num_or_def truthy_num_def example_cross_section_def Let_def
      validate_radius_def euler_arc90_def round3_def round_half_even_def)

text \<open>
  Claim C7, amended.  With target radius \<open>None\<close> the bend takes the radius of the
  cross-section: the result is the wire corner exactly when the cross-section has no
  radius either, and otherwise it is the result of the call with the cross-section's
  radius.
\<close>

theorem radius_none_falls_back:
  "(bend_euler euler x None angle p with_arc_floorplan npoints layer width direction allow
      = Inr (WireCorner x) \<longleftrightarrow> xs_radius x = None) \<and>
   (xs_radius x = Some r \<longrightarrow>
      bend_euler euler x None angle p with_arc_floorplan npoints layer width direction allow
      = bend_euler euler x (Some r) angle p with_arc_floorplan npoints layer width direction allow)"
  by (auto simp: bend_euler_def num_or_def truthy_num_def Let_def split: option.splits sum.splits)

theorem radius_none_falls_back_witness:
  "bend_euler euler_arc90 example_cross_section None 90 0 True None None None ''ccw'' False
     = bend_euler euler_arc90 example_cross_section (Some 10) 90 0 True None None None ''ccw'' False
   \<and> bend_euler euler_arc90 (example_cross_section\<lparr>xs_radius := None\<rparr>) None 90 0 True None None
        None ''ccw'' False = Inr (WireCorner (example_cross_section\<lparr>xs_radius := None\<rparr>))"
  using radius_none_falls_back [of euler_arc90 example_cross_section 90 0 True None None None
      "''ccw''" False 10]
    radius_none_falls_back [of euler_arc90 "example_cross_section\<lparr>xs_radius := None\<rparr>" 90 0 True
      None None None "''ccw''" False 10]
  by (simp add: example_cross_section_def)

section \<open>The row count of \<open>cutback_loss\<close>\<close>

text \<open>
  Rounding to float64 is determined once the binade of the value is known, and it is
  exact on the integers of magnitude up to \<open>2^53\<close>.
\<close>

lemma bitlen_binade:
  assumes "2 ^ k \<le> n" and "n < 2 ^ Suc k"
  shows "bitlen n = int k + 1"
proof (rule antisym)
  show "bitlen n \<le> int k + 1"
    using assms(2) by (simp add: bitlen_le_iff_power nat_add_distrib)
  show "int k + 1 \<le> bitlen n"
    using assms(1) by (simp add: bitlen_ge_iff_power nat_add_distrib)
qed

lemma float64_binade:
  assumes "2 ^ k \<le> \<bar>v\<bar> * 2 ^ 1074" and "\<bar>v\<bar> * 2 ^ 1074 < 2 ^ Suc k"
  shows "float64 v =
     (let n = round_half_even (v * 2 ^ 1074 / 2 ^ (k - 52)) * 2 ^ (k - 52)
      in if \<bar>n\<bar> < 2 ^ 2098 then Some (of_int n / 2 ^ 1074) else None)"
proof -
  have abs: "\<bar>v * 2 ^ 1074\<bar> = \<bar>v\<bar> * 2 ^ 1074"
    by (simp add: abs_mult)
  have lo: "(2::int) ^ k \<le> \<lfloor>\<bar>v\<bar> * 2 ^ 1074\<rfloor>"
    using assms(1) by (simp add: le_floor_iff)
  have hi: "\<lfloor>\<bar>v\<bar> * 2 ^ 1074\<rfloor> < (2::int) ^ Suc k"
    using assms(2) by (simp add: floor_less_iff)
  have "bitlen \<lfloor>\<bar>v * 2 ^ 1074\<bar>\<rfloor> = int k + 1"
    unfolding abs using lo hi by (rule bitlen_binade)
  then have j: "nat (bitlen \<lfloor>\<bar>v * 2 ^ 1074\<bar>\<rfloor> - 53) = k - 52"
    by simp
  show ?thesis
    unfolding float64_def Let_def j by (rule refl)
qed

lemma py_int_of_int: "py_int (of_int n) = n"
  by (simp add: py_int_def)

lemma round_half_even_of_int: "round_half_even (of_int m) = m"
  by (simp add: round_half_even_def)

lemma float64_int_strict:
  assumes "\<bar>z\<bar> < 2 ^ 53"
  shows "float64 (of_int z) = Some (of_int z)"
proof -
  define j where "j = nat (bitlen \<lfloor>\<bar>real_of_int z * 2 ^ 1074\<bar>\<rfloor> - 53)"
  have fl: "\<lfloor>\<bar>real_of_int z * 2 ^ 1074\<bar>\<rfloor> = \<bar>z\<bar> * 2 ^ 1074"
  proof -
    have "\<bar>real_of_int z * 2 ^ 1074\<bar> = of_int (\<bar>z\<bar> * 2 ^ 1074)"
      by (simp add: abs_mult)
    then show ?thesis by (simp only: floor_of_int)
  qed
  have "\<bar>z\<bar> * 2 ^ 1074 < (2::int) ^ 53 * 2 ^ 1074"
    using assms by (intro mult_strict_right_mono) simp_all
  then have "\<bar>z\<bar> * 2 ^ 1074 < (2::int) ^ nat 1127"
    by (simp add: power_add [symmetric])
  then have "bitlen (\<bar>z\<bar> * 2 ^ 1074) \<le> 1127"
    by (subst bitlen_le_iff_power) simp
  then have j: "j \<le> 1074"
    unfolding j_def fl by simp
  then have split: "(2::real) ^ 1074 = 2 ^ (1074 - j) * 2 ^ j"
    by (simp add: power_add [symmetric])
  have "real_of_int z * 2 ^ 1074 / 2 ^ j = of_int (z * 2 ^ (1074 - j))"
    unfolding split by simp
  then have r: "round_half_even (real_of_int z * 2 ^ 1074 / 2 ^ j) = z * 2 ^ (1074 - j)"
    by (simp only: round_half_even_of_int)
  have n: "z * 2 ^ (1074 - j) * 2 ^ j = z * 2 ^ 1074"
    using j by (simp add: power_add [symmetric])
  have "\<bar>z * 2 ^ 1074\<bar> < (2::int) ^ 53 * 2 ^ 1074"
    using assms by (simp add: abs_mult)
  also have "\<dots> < 2 ^ 2098"
    by (simp add: power_add [symmetric])
  finally have small: "\<bar>z * 2 ^ 1074\<bar> < (2::int) ^ 2098" .
  have "float64 (of_int z) = Some (of_int (z * 2 ^ 1074) / 2 ^ 1074)"
    unfolding float64_def Let_def j_def [symmetric] r n using small by simp
  then show ?thesis by simp
qed

lemma float64_minus_2_53: "float64 (- (2 ^ 53)) = Some (- (2 ^ 53))"
  using float64_binade [of 1127 "- (2 ^ 53)"] by (simp add: Let_def round_half_even_def)

lemma float64_2_53: "float64 (2 ^ 53) = Some (2 ^ 53)"
  using float64_binade [of 1127 "2 ^ 53"] by (simp add: Let_def round_half_even_def)

lemma float64_2_53_plus_1: "float64 (2 ^ 53 + 1) = Some (2 ^ 53)"
  using float64_binade [of 1127 "2 ^ 53 + 1"] by (simp add: Let_def round_half_even_def)

lemma float64_int:
  assumes "- (2 ^ 53) \<le> z" and "z < 2 ^ 53"
  shows "float64 (of_int z) = Some (of_int z)"
proof (cases "z = - (2 ^ 53)")
  case True
  then show ?thesis using float64_minus_2_53 by simp
next
  case False
  with assms have "\<bar>z\<bar> < 2 ^ 53" by simp
  then show ?thesis by (rule float64_int_strict)
qed

lemma float64_numeral:
  "(numeral n :: int) < 2 ^ 53 \<Longrightarrow> float64 (numeral n) = Some (numeral n)"
  using float64_int_strict [of "numeral n"] by simp

lemma float64_one: "float64 1 = Some 1"
  using float64_int_strict [of 1] by simp

lemma derive_rows_odd:
  assumes "derive_rows loss_dB cols l = Inr r"
  shows "\<exists>q. loss_quotient loss_dB cols l = Inr (Finite q) \<and>
            (\<bar>q\<bar> < 2 ^ 53 \<longrightarrow> r = \<lfloor>q / 2\<rfloor> * 2 + 1 \<and> odd r)"
proof -
  from assms obtain q where q: "loss_quotient loss_dB cols l = Inr (Finite q)"
    by (auto simp: derive_rows_def split: sum.splits fp.splits)
  have "r = \<lfloor>q / 2\<rfloor> * 2 + 1 \<and> odd r" if small: "\<bar>q\<bar> < 2 ^ 53"
  proof -
    define f where "f = \<lfloor>q / 2\<rfloor>"
    have "- (2 ^ 52) \<le> q / 2" and "q / 2 < 2 ^ 52"
      using small by simp_all
    then have lo: "- (2 ^ 52) \<le> f" and hi: "f < 2 ^ 52"
      unfolding f_def by (simp_all add: le_floor_iff floor_less_iff)
    have t: "float64 (of_int f * 2) = Some (of_int f * 2)"
      using float64_int [of "f * 2"] lo hi by simp
    have s: "float64 (of_int f * 2 + 1) = Some (of_int f * 2 + 1)"
      using float64_int [of "f * 2 + 1"] lo hi by simp
    have p: "py_int (of_int f * 2 + 1) = f * 2 + 1"
      using py_int_of_int [of "f * 2 + 1"] by simp
    have "derive_rows loss_dB cols l = Inr (f * 2 + 1)"
      by (simp add: derive_rows_def q f_def [symmetric] t s p)
    with assms have "r = f * 2 + 1"
      by simp
    then show ?thesis by (simp add: f_def)
  qed
  with q show ?thesis by blast
qed

lemma derive_rows_total:
  assumes "loss_quotient loss_dB cols l = Inr (Finite q)" and "\<bar>q\<bar> < 2 ^ 53"
  shows "derive_rows loss_dB cols l = Inr (\<lfloor>q / 2\<rfloor> * 2 + 1)"
proof -
  define f where "f = \<lfloor>q / 2\<rfloor>"
  have "- (2 ^ 52) \<le> q / 2" and "q / 2 < 2 ^ 52"
    using assms(2) by simp_all
  then have lo: "- (2 ^ 52) \<le> f" and hi: "f < 2 ^ 52"
    unfolding f_def by (simp_all add: le_floor_iff floor_less_iff)
  have t: "float64 (of_int f * 2) = Some (of_int f * 2)"
    using float64_int [of "f * 2"] lo hi by simp
  have s: "float64 (of_int f * 2 + 1) = Some (of_int f * 2 + 1)"
    using float64_int [of "f * 2 + 1"] lo hi by simp
  have p: "py_int (of_int f * 2 + 1) = f * 2 + 1"
    using py_int_of_int [of "f * 2 + 1"] by simp
  show ?thesis
    by (simp add: derive_rows_def assms(1) f_def [symmetric] t s p)
qed

lemma collect_Inr_all2:
  "collect rs = Inr vs \<Longrightarrow> list_all2 (\<lambda>r v. r = Inr v) rs vs"
proof (induction rs arbitrary: vs)
  case Nil
  then show ?case by simp
next
  case (Cons r rs)
  then show ?case
    by (cases r) (auto split: sum.splits)
qed

lemma collect_all_Inr:
  "\<forall>r \<in> set rs. \<exists>v. r = Inr v \<Longrightarrow> \<exists>vs. collect rs = Inr vs"
proof (induction rs)
  case Nil
  then show ?case by simp
next
  case (Cons r rs)
  then obtain v vs where "r = Inr v" "collect rs = Inr vs" by auto
  then show ?case by simp
qed

text \<open>
  Claim C8 as stated fails: for a target loss of \<open>2^53\<close> dB at 1 dB per component and
  one column, \<open>rows_list // 2 * 2\<close> is \<open>2^53\<close> and adding 1 rounds back to \<open>2^53\<close>,
  so the row count passed to \<open>cutback\<close> is even.
\<close>

theorem cutback_rows_even_counterexample:
  "cutback_loss [9007199254740992] 1 (Some 1) None = Inr [(9007199254740992, 1)]
   \<and> even (9007199254740992 :: int) \<and> (9007199254740992 :: int) = 2 ^ 53"
proof -
  have a: "float64 9007199254740992 = Some 9007199254740992"
    using float64_2_53 by simp
  have b: "float64 9007199254740993 = Some 9007199254740992"
    using float64_2_53_plus_1 by simp
  show ?thesis
    by (simp add: cutback_loss_def truthy_int_def derive_rows_def loss_quotient_def
        float64_one a b py_int_def)
qed

text \<open>
  Claim C8, amended.  With a column count and no row count, every row count that
  \<open>cutback_loss\<close> derives comes from a finite float64 quotient \<open>q\<close> of
  \<open>loss / loss_dB / cols\<close>, and whenever \<open>|q| < 2^53\<close> it is
  \<open>floor(q / 2) * 2 + 1\<close> exactly, and odd.  When every quotient is finite and below
  \<open>2^53\<close> in magnitude, \<open>cutback_loss\<close> returns.
\<close>

theorem cutback_rows_odd_below_2_53:
  "(cutback_loss loss loss_dB (Some cols) None = Inr res \<longrightarrow>
      list_all2 (\<lambda>l rc. snd rc = cols \<and>
          (\<exists>q. loss_quotient loss_dB cols l = Inr (Finite q) \<and>
               (\<bar>q\<bar> < 2 ^ 53 \<longrightarrow> fst rc = \<lfloor>q / 2\<rfloor> * 2 + 1 \<and> odd (fst rc)))) loss res) \<and>
   ((\<forall>l \<in> set loss. \<exists>q. loss_quotient loss_dB cols l = Inr (Finite q) \<and> \<bar>q\<bar> < 2 ^ 53) \<longrightarrow>
      (\<exists>res. cutback_loss loss loss_dB (Some cols) None = Inr res))"
proof (intro conjI impI)
  assume res: "cutback_loss loss loss_dB (Some cols) None = Inr res"
  then obtain rows_list where c: "collect (map (derive_rows loss_dB cols) loss) = Inr rows_list"
    and r: "res = map (\<lambda>rows. (rows, cols)) rows_list"
    by (auto simp: cutback_loss_def truthy_int_def split: sum.splits)
  from collect_Inr_all2 [OF c]
  have "list_all2 (\<lambda>l rows. derive_rows loss_dB cols l = Inr rows) loss rows_list"
    by (simp add: list_all2_map1)
  then have "list_all2 (\<lambda>l rows. \<exists>q. loss_quotient loss_dB cols l = Inr (Finite q) \<and>
            (\<bar>q\<bar> < 2 ^ 53 \<longrightarrow> rows = \<lfloor>q / 2\<rfloor> * 2 + 1 \<and> odd rows)) loss rows_list"
    by (rule list_all2_mono) (rule derive_rows_odd)
  then show "list_all2 (\<lambda>l rc. snd rc = cols \<and>
          (\<exists>q. loss_quotient loss_dB cols l = Inr (Finite q) \<and>
               (\<bar>q\<bar> < 2 ^ 53 \<longrightarrow> fst rc = \<lfloor>q / 2\<rfloor> * 2 + 1 \<and> odd (fst rc)))) loss res"
    unfolding r by (simp add: list_all2_map2)
next
  assume "\<forall>l \<in> set loss. \<exists>q. loss_quotient loss_dB cols l = Inr (Finite q) \<and> \<bar>q\<bar> < 2 ^ 53"
  then have "\<forall>r \<in> set (map (derive_rows loss_dB cols) loss). \<exists>v. r = Inr v"
    using derive_rows_total by fastforce
  from collect_all_Inr [OF this] obtain rows_list
    where "collect (map (derive_rows loss_dB cols) loss) = Inr rows_list" ..
  then show "\<exists>res. cutback_loss loss loss_dB (Some cols) None = Inr res"
    by (simp add: cutback_loss_def truthy_int_def)
qed

text \<open>
  The default arguments: target losses 1, 2 and 3 dB, \<open>loss_dB = 10e-3\<close> (the float64
  nearest to 0.01) and 4 columns give 25, 51 and 75 rows.
\<close>

lemma float64_100: "float64 (1 / (5764607523034235 / 576460752303423488)) = Some 100"
  using float64_binade [of 1080 "1 / (5764607523034235 / 576460752303423488)"]
  by (simp add: Let_def round_half_even_def)

lemma float64_200: "float64 (2 / (5764607523034235 / 576460752303423488)) = Some 200"
  using float64_binade [of 1081 "2 / (5764607523034235 / 576460752303423488)"]
  by (simp add: Let_def round_half_even_def)

lemma float64_300: "float64 (3 / (5764607523034235 / 576460752303423488)) = Some 300"
  using float64_binade [of 1082 "3 / (5764607523034235 / 576460752303423488)"]
  by (simp add: Let_def round_half_even_def)

theorem cutback_rows_odd_below_2_53_witness:
  "cutback_loss [1, 2, 3] (5764607523034235 / 576460752303423488) (Some 4) None
     = Inr [(25, 4), (51, 4), (75, 4)]
   \<and> odd (25::int) \<and> odd (51::int) \<and> odd (75::int)"
  using cutback_rows_odd_below_2_53 [of "[1, 2, 3]" "5764607523034235 / 576460752303423488" 4
      "[(25, 4), (51, 4), (75, 4)]"]
  using float64_100 float64_200 float64_300
  by (simp add: cutback_loss_def truthy_int_def derive_rows_def loss_quotient_def
      float64_numeral py_int_def)

section \<open>The width of the \<open>pad\<close> port\<close>

text \<open>The grown sizes are cumulative: entry \<open>i\<close> has grown by the first \<open>i + 1\<close> offsets.\<close>

lemma length_grow_sizes: "length (grow_sizes sz offs) = length offs"
  by (induction offs arbitrary: sz) (auto simp: Let_def)

lemma grow_sizes_nth:
  "i < length offs \<Longrightarrow>
   grow_sizes sz offs ! i =
     (fst sz + 2 * sum_list (take (Suc i) offs), snd sz + 2 * sum_list (take (Suc i) offs))"
proof (induction offs arbitrary: sz i)
  case Nil
  then show ?case by simp
next
  case (Cons a offs)
  show ?case
  proof (cases i)
    case 0
    then show ?thesis by (simp add: Let_def)
  next
    case (Suc j)
    with Cons.prems have "j < length offs" by simp
    from Cons.IH [OF this] Suc show ?thesis
      by (simp add: Let_def algebra_simps)
  qed
qed

lemma last_zip_grow_sizes:
  assumes "ls \<noteq> []" and "offs \<noteq> []"
  shows "last (zip ls (grow_sizes sz offs)) =
     (ls ! (min (length ls) (length offs) - 1),
      (fst sz + 2 * sum_list (take (length ls) offs),
       snd sz + 2 * sum_list (take (length ls) offs)))"
proof -
  define k where "k = min (length ls) (length offs)"
  have k: "0 < k" using assms by (simp add: k_def)
  have le: "k \<le> length ls" "k \<le> length offs"
    by (simp_all add: k_def)
  have kl: "k - 1 < length ls" and ko: "k - 1 < length offs" and ks: "Suc (k - 1) = k"
    using k le by linarith+
  have len: "length (zip ls (grow_sizes sz offs)) = k"
    by (simp add: length_grow_sizes k_def)
  then have ne: "zip ls (grow_sizes sz offs) \<noteq> []" using k by auto
  have "last (zip ls (grow_sizes sz offs)) = zip ls (grow_sizes sz offs) ! (k - 1)"
    using last_conv_nth [OF ne] len by simp
  also have "\<dots> = (ls ! (k - 1), grow_sizes sz offs ! (k - 1))"
    using kl ko by (intro nth_zip) (simp_all only: length_grow_sizes)
  also have "grow_sizes sz offs ! (k - 1) =
     (fst sz + 2 * sum_list (take k offs), snd sz + 2 * sum_list (take k offs))"
    using grow_sizes_nth [OF ko, of sz] by (simp only: ks)
  also have "take k offs = take (length ls) offs"
    by (simp add: k_def min_def)
  finally show ?thesis by (simp add: k_def)
qed

text \<open>
  Claim C10 as stated fails when there are fewer bbox layers than offsets: with one layer
  and the offsets 1 and 2 on a 100 by 100 pad, the last grown size is 106 but the port
  width is 102, the size paired with the one layer.
\<close>

theorem pad_width_counterexample:
  "pad_port_width (pad (100, 100) (49, 0) (Some [(1, 0)]) (Some [1, 2]) 0 0) = 102
   \<and> last (grow_sizes (100, 100) [1, 2]) = (106, 106)"
  by (simp add: pad_def truthy_list_def Let_def)

text \<open>
  Claim C10, amended.  With both bbox layers and bbox offsets, the width of the port
  \<open>"pad"\<close> comes from the last grown size that is paired with a layer: the nominal
  size grown by twice the sum of the first \<open>len(bbox_layers)\<close> offsets, which is the last
  entry of the grown-size list when there are at least as many layers as offsets.
  Without bbox layers or offsets it is \<open>size[1]\<close> for orientation 0 or 180 and
  \<open>size[0]\<close> otherwise.
\<close>

theorem pad_width_from_paired_size:
  "(bbox_layers = Some ls \<and> ls \<noteq> [] \<and> bbox_offsets = Some offs \<and> offs \<noteq> [] \<longrightarrow>
      pad_port_width (pad sz layer bbox_layers bbox_offsets port_inclusion orientation) =
        (if orientation \<in> {0, 180} then snd sz else fst sz)
          + 2 * sum_list (take (length ls) offs)) \<and>
   (bbox_layers = Some ls \<and> ls \<noteq> [] \<and> bbox_offsets = Some offs \<and> offs \<noteq> [] \<and>
    length offs \<le> length ls \<longrightarrow>
      pad_port_width (pad sz layer bbox_layers bbox_offsets port_inclusion orientation) =
        (if orientation \<in> {0, 180} then snd (last (grow_sizes sz offs))
         else fst (last (grow_sizes sz offs)))) \<and>
   (\<not> (truthy_list bbox_layers \<and> truthy_list bbox_offsets) \<longrightarrow>
      pad_port_width (pad sz layer bbox_layers bbox_offsets port_inclusion orientation) =
        (if orientation \<in> {0, 180} then snd sz else fst sz))"
proof -
  have A: "pad_port_width (pad sz layer (Some ls) (Some offs) port_inclusion orientation) =
        (if orientation \<in> {0, 180} then snd sz else fst sz)
          + 2 * sum_list (take (length ls) offs)"
    if "ls \<noteq> []" "offs \<noteq> []"
  proof -
    have ne: "zip ls (grow_sizes sz offs) \<noteq> []"
      using that by (cases ls; cases offs) (auto simp: Let_def)
    show ?thesis
      using that ne
      by (simp add: pad_def truthy_list_def Let_def last_zip_grow_sizes)
  qed
  have L: "last (grow_sizes sz offs) =
      (fst sz + 2 * sum_list offs, snd sz + 2 * sum_list offs)" if "offs \<noteq> []"
  proof -
    have "grow_sizes sz offs \<noteq> []" using that by (cases offs) (auto simp: Let_def)
    then have "last (grow_sizes sz offs) = grow_sizes sz offs ! (length offs - 1)"
      by (simp add: last_conv_nth length_grow_sizes)
    then show ?thesis using that grow_sizes_nth [of "length offs - 1" offs sz] by simp
  qed
  have C: "pad_port_width (pad sz layer bbox_layers bbox_offsets port_inclusion orientation) =
        (if orientation \<in> {0, 180} then snd sz else fst sz)"
    if "\<not> (truthy_list bbox_layers \<and> truthy_list bbox_offsets)"
    unfolding pad_def Let_def if_not_P [OF that] by simp
  show ?thesis using A L C by auto
qed

theorem pad_width_from_paired_size_witness:
  "pad_port_width (pad (100, 100) (49, 0) (Some [(1, 0), (2, 0)]) (Some [1, 2]) 0 0) = 106
   \<and> last (grow_sizes (100, 100) [1, 2]) = (106, 106)
   \<and> pad_port_width (pad (100, 80) (49, 0) None None 0 90) = 100
   \<and> pad_port_width (pad (100, 80) (49, 0) None None 0 180) = 80"
  using pad_width_from_paired_size [of "Some [(1, 0), (2, 0)]" "[(1, 0), (2, 0)]" "Some [1, 2]" "[1, 2]"
      "(100, 100)" "(49, 0)" 0 0]
    pad_width_from_paired_size [of None "[]" None "[]" "(100, 80)" "(49, 0)" 0 90]
    pad_width_from_paired_size [of None "[]" None "[]" "(100, 80)" "(49, 0)" 0 180]
  by (simp add: truthy_list_def Let_def)

section \<open>The clockwise and counter-clockwise orders\<close>

lemma quadrant_buckets:
  "fold (quadrant_step P) ports direction_ports_init d =
     filter (\<lambda>p. direction_of_angle (of_int (port_angle (P p) * 90)) = d) ports"
proof -
  have "quadrant_step P =
      (\<lambda>p dp. append_port dp (direction_of_angle (of_int (port_angle (P p) * 90))) p)"
    by (simp add: quadrant_step_def fun_eq_iff)
  then show ?thesis
    by (simp add: fold_append_port direction_ports_init_def)
qed

lemma descending_sort_key:
  fixes f :: "'a \<Rightarrow> int"
  shows "sorted (rev (map f (sort_key (\<lambda>p. - f p) xs)))"
proof -
  have "sorted (map (\<lambda>p. - f p) (sort_key (\<lambda>p. - f p) xs))"
    by (rule sorted_sort_key)
  then show ?thesis
    by (simp add: sorted_wrt_rev sorted_wrt_map sorted_map)
qed

text \<open>
  Claim C3.  \<open>sort_ports_clockwise\<close> returns the West ports in ascending y, then the
  North ports in ascending x, then the East ports in descending y, then the South ports
  in descending x; \<open>sort_ports_counter_clockwise\<close> returns the East ports in ascending
  y, the North ports in descending x, the West ports in descending y and the South ports
  in ascending x.  The ports of a side are the input ports that the classifier sends
  there, with their multiplicity.
\<close>

theorem sort_ports_ring_order:
  fixes P :: "'r \<Rightarrow> Port"
  shows
  "(\<exists>west north east south.
      sort_ports_clockwise P ports = west @ north @ east @ south \<and>
      mset west = {#p \<in># mset ports. direction_of_angle (of_int (port_angle (P p) * 90)) = ''W''#} \<and>
      mset north = {#p \<in># mset ports. direction_of_angle (of_int (port_angle (P p) * 90)) = ''N''#} \<and>
      mset east = {#p \<in># mset ports. direction_of_angle (of_int (port_angle (P p) * 90)) = ''E''#} \<and>
      mset south = {#p \<in># mset ports. direction_of_angle (of_int (port_angle (P p) * 90)) = ''S''#} \<and>
      sorted (map (\<lambda>p. port_y (P p)) west) \<and>
      sorted (map (\<lambda>p. port_x (P p)) north) \<and>
      sorted (rev (map (\<lambda>p. port_y (P p)) east)) \<and>
      sorted (rev (map (\<lambda>p. port_x (P p)) south))) \<and>
   (\<exists>east north west south.
      sort_ports_counter_clockwise P ports = east @ north @ west @ south \<and>
      mset east = {#p \<in># mset ports. direction_of_angle (of_int (port_angle (P p) * 90)) = ''E''#} \<and>
      mset north = {#p \<in># mset ports. direction_of_angle (of_int (port_angle (P p) * 90)) = ''N''#} \<and>
      mset west = {#p \<in># mset ports. direction_of_angle (of_int (port_angle (P p) * 90)) = ''W''#} \<and>
      mset south = {#p \<in># mset ports. direction_of_angle (of_int (port_angle (P p) * 90)) = ''S''#} \<and>
      sorted (map (\<lambda>p. port_y (P p)) east) \<and>
      sorted (rev (map (\<lambda>p. port_x (P p)) north)) \<and>
      sorted (rev (map (\<lambda>p. port_y (P p)) west)) \<and>
      sorted (map (\<lambda>p. port_x (P p)) south))"
proof (rule conjI)
  let ?side = "\<lambda>d. filter (\<lambda>p. direction_of_angle (of_int (port_angle (P p) * 90)) = d) ports"
  show "\<exists>west north east south.
      sort_ports_clockwise P ports = west @ north @ east @ south \<and>
      mset west = {#p \<in># mset ports. direction_of_angle (of_int (port_angle (P p) * 90)) = ''W''#} \<and>
      mset north = {#p \<in># mset ports. direction_of_angle (of_int (port_angle (P p) * 90)) = ''N''#} \<and>
      mset east = {#p \<in># mset ports. direction_of_angle (of_int (port_angle (P p) * 90)) = ''E''#} \<and>
      mset south = {#p \<in># mset ports. direction_of_angle (of_int (port_angle (P p) * 90)) = ''S''#} \<and>
      sorted (map (\<lambda>p. port_y (P p)) west) \<and>
      sorted (map (\<lambda>p. port_x (P p)) north) \<and>
      sorted (rev (map (\<lambda>p. port_y (P p)) east)) \<and>
      sorted (rev (map (\<lambda>p. port_x (P p)) south))"
    apply (rule exI [of _ "sort_key (\<lambda>p. port_y (P p)) (?side ''W'')"])
    apply (rule exI [of _ "sort_key (\<lambda>p. port_x (P p)) (?side ''N'')"])
    apply (rule exI [of _ "sort_key (\<lambda>p. - port_y (P p)) (?side ''E'')"])
    apply (rule exI [of _ "sort_key (\<lambda>p. - port_x (P p)) (?side ''S'')"])
    apply (simp only: sort_ports_clockwise_def Let_def quadrant_buckets mset_sort mset_filter
        sorted_sort_key descending_sort_key simp_thms)
    done
  show "\<exists>east north west south.
      sort_ports_counter_clockwise P ports = east @ north @ west @ south \<and>
      mset east = {#p \<in># mset ports. direction_of_angle (of_int (port_angle (P p) * 90)) = ''E''#} \<and>
      mset north = {#p \<in># mset ports. direction_of_angle (of_int (port_angle (P p) * 90)) = ''N''#} \<and>
      mset west = {#p \<in># mset ports. direction_of_angle (of_int (port_angle (P p) * 90)) = ''W''#} \<and>
      mset south = {#p \<in># mset ports. direction_of_angle (of_int (port_angle (P p) * 90)) = ''S''#} \<and>
      sorted (map (\<lambda>p. port_y (P p)) east) \<and>
      sorted (rev (map (\<lambda>p. port_x (P p)) north)) \<and>
      sorted (rev (map (\<lambda>p. port_y (P p)) west)) \<and>
      sorted (map (\<lambda>p. port_x (P p)) south)"
    apply (rule exI [of _ "sort_key (\<lambda>p. port_y (P p)) (?side ''E'')"])
    apply (rule exI [of _ "sort_key (\<lambda>p. - port_x (P p)) (?side ''N'')"])
    apply (rule exI [of _ "sort_key (\<lambda>p. - port_y (P p)) (?side ''W'')"])
    apply (rule exI [of _ "sort_key (\<lambda>p. port_x (P p)) (?side ''S'')"])
    apply (simp only: sort_ports_counter_clockwise_def Let_def quadrant_buckets mset_sort
        mset_filter sorted_sort_key descending_sort_key simp_thms)
    done
qed

section \<open>The minimum radius of \<open>bend_euler\<close>\<close>

text \<open>Rounding to three decimals is monotone.\<close>

lemma round_half_even_bounds: "\<lfloor>v\<rfloor> \<le> round_half_even v \<and> round_half_even v \<le> \<lfloor>v\<rfloor> + 1"
  by (simp add: round_half_even_def Let_def)

lemma round_half_even_mono:
  assumes "v \<le> w"
  shows "round_half_even v \<le> round_half_even w"
proof (cases "\<lfloor>v\<rfloor> = \<lfloor>w\<rfloor>")
  case True
  with assms show ?thesis
    by (auto simp: round_half_even_def Let_def)
next
  case False
  with assms have "\<lfloor>v\<rfloor> + 1 \<le> \<lfloor>w\<rfloor>"
    using floor_mono [of v w] by linarith
  with round_half_even_bounds [of v] round_half_even_bounds [of w] show ?thesis
    by linarith
qed

lemma round3_mono: "v \<le> w \<Longrightarrow> round3 v \<le> round3 w"
proof -
  assume "v \<le> w"
  then have "v * 1000 \<le> w * 1000" by simp
  then have "round_half_even (v * 1000) \<le> round_half_even (w * 1000)"
    by (rule round_half_even_mono)
  then show ?thesis
    by (simp add: round3_def divide_right_mono)
qed

text \<open>
  Claim C2 as stated fails at two inputs.  A radius of 0 is replaced by the radius of the
  cross-section (\<open>radius or x.radius\<close>), here 10, which passes the check although 0 is
  below the minimum 5.  And with the flag set, a radius of 4.9996 below the minimum 5
  gives a path of minimum radius 4.9996, which is reported rounded to three decimals:
  \<open>radius_min\<close> is 5, not below the minimum.
\<close>

theorem radius_violation_counterexample:
  "(case bend_euler euler_arc90 example_cross_section (Some 0) 90 0 False None None None
          ''ccw'' False of
      Inr (EulerBend x i m t b) \<Rightarrow> info_radius i = 10 | _ \<Rightarrow> False) \<and>
   (case bend_euler euler_arc90 example_cross_section (Some (49996 / 10000)) 90 0 False None
          None None ''ccw'' True of
      Inr (EulerBend x i m t b) \<Rightarrow> info_radius_min i = 5 | _ \<Rightarrow> False) \<and>
   xs_radius_min example_cross_section = Some 5"
  by (simp add: bend_euler_def num_or_def truthy_num_def example_cross_section_def Let_def
      validate_radius_def euler_arc90_def round3_def round_half_even_def)

text \<open>
  Claim C2, amended.  For every nonzero radius below the declared minimum of the
  cross-section, \<open>bend_euler\<close> with the flag unset raises \<open>RadiusViolation\<close>; with the
  flag set the same call returns a bend of that radius whose \<open>radius_min\<close> is the minimum
  radius of the path rounded to three decimals, and whenever the minimum radius of the
  path is at most the requested radius, \<open>radius_min\<close> is at most the declared minimum
  rounded to three decimals.
\<close>

theorem radius_violation:
  assumes "xs_radius_min x = Some m" and "r < m" and "r \<noteq> 0"
  shows "bend_euler euler x (Some r) angle p with_arc_floorplan npoints layer width direction
           False = Inl RadiusViolation \<and>
     (\<exists>x' i mirrored top bottom.
        bend_euler euler x (Some r) angle p with_arc_floorplan npoints layer width direction
           True = Inr (EulerBend x' i mirrored top bottom) \<and>
        info_radius i = r \<and>
        info_radius_min i = round3 (path_Rmin (euler r angle p with_arc_floorplan npoints)) \<and>
        (path_Rmin (euler r angle p with_arc_floorplan npoints) \<le> r \<longrightarrow>
           info_radius_min i \<le> round3 m))"
proof -
  have less: "path_Rmin (euler r angle p with_arc_floorplan npoints) \<le> r \<Longrightarrow>
      round3 (path_Rmin (euler r angle p with_arc_floorplan npoints)) \<le> round3 m"
    using assms(2) by (intro round3_mono) simp
  show ?thesis
    using assms less
    by (simp add: bend_euler_def num_or_def truthy_num_def Let_def validate_radius_def)
qed

text \<open>Radius 3 on a cross-section of minimum radius 5.\<close>

theorem radius_violation_witness:
  "bend_euler euler_arc90 example_cross_section (Some 3) 90 0 False None None None ''ccw'' False
     = Inl RadiusViolation \<and>
   (\<exists>x' i mirrored top bottom.
      bend_euler euler_arc90 example_cross_section (Some 3) 90 0 False None None None ''ccw'' True
        = Inr (EulerBend x' i mirrored top bottom) \<and> info_radius_min i = 3)"
  using radius_violation [of example_cross_section 5 3 euler_arc90 90 0 False None None None
      "''ccw''"]
  by (simp add: example_cross_section_def euler_arc90_def round3_def round_half_even_def, blast)

section \<open>Renaming twice\<close>

lemma set_names_Nil: "set_names [] P = P"
  by (simp add: set_names_def)

lemma set_names_Cons:
  "set_names ((p, n) # plan) P = set_names plan (P(p := (P p)\<lparr>port_name := n\<rparr>))"
  by (simp add: set_names_def)

lemma set_names_append: "set_names (a @ b) P = set_names b (set_names a P)"
  by (simp add: set_names_def)

lemma assign_names_plan:
  "assign_names pre i ps P =
     set_names (zip ps (map (\<lambda>k. pre @ str_nat k) [i..<i + length ps])) P"
proof (induction ps arbitrary: i P)
  case Nil
  then show ?case by (simp add: set_names_Nil)
next
  case (Cons p ps)
  have eq: "[i..<i + length (p # ps)] = i # [Suc i..<Suc i + length ps]"
    by (subst upt_rec) simp
  show ?case
    unfolding eq
    by (simp only: assign_names.simps Cons.IH zip_Cons_Cons list.map set_names_Cons)
qed

lemma set_names_geometry: "geometry (set_names plan P r) = geometry (P r)"
proof (induction plan arbitrary: P)
  case Nil
  then show ?case by (simp add: set_names_Nil)
next
  case (Cons a plan)
  obtain p n where a: "a = (p, n)" by (cases a)
  show ?case
    unfolding a set_names_Cons Cons.IH by (simp add: geometry_def)
qed

lemma set_names_lookup:
  "set_names plan P r =
     (case map_of (rev plan) r of None \<Rightarrow> P r | Some n \<Rightarrow> (P r)\<lparr>port_name := n\<rparr>)"
proof (induction plan arbitrary: P)
  case Nil
  then show ?case by (simp add: set_names_Nil)
next
  case (Cons a plan)
  obtain p n where a: "a = (p, n)" by (cases a)
  show ?case
    unfolding a set_names_Cons Cons.IH
    by (auto simp: map_add_def split: option.splits)
qed

lemma set_names_idem: "set_names plan (set_names plan P) = set_names plan P"
  by (rule ext) (simp add: set_names_lookup split: option.splits)


lemma geometry_view: "(\<lambda>r. geometry (set_names plan P r)) = (\<lambda>r. geometry (P r))"
  by (simp add: set_names_geometry)

lemma facing_side_sort_geometry:
  "facing_side_sort P = facing_side_sort (\<lambda>r. geometry (P r))"
  by (simp add: facing_side_sort_def fun_eq_iff geometry_def)

lemma classify_by_orientation_geometry:
  "classify_by_orientation P = classify_by_orientation (\<lambda>r. geometry (P r))"
  by (simp add: classify_by_orientation_filter fun_eq_iff geometry_def)

lemma sort_ports_geometry:
  "sort_ports_clockwise P = sort_ports_clockwise (\<lambda>r. geometry (P r))"
  "sort_ports_counter_clockwise P = sort_ports_counter_clockwise (\<lambda>r. geometry (P r))"
  by (simp_all add: sort_ports_clockwise_def sort_ports_counter_clockwise_def quadrant_buckets
      fun_eq_iff geometry_def)

lemma select_ports_geometry:
  assumes "\<not> truthy_list (sel_prefix kw)" and "\<not> truthy_list (sel_suffix kw)"
    and "\<not> truthy_list (sel_names kw)"
  shows "select_ports P ports kw = select_ports (\<lambda>r. geometry (P r)) ports kw"
proof -
  have fields: "port_layer (geometry q) = port_layer q" "port_dangle (geometry q) = port_dangle q"
    "port_width (geometry q) = port_width q" "port_type (geometry q) = port_type q" for q
    by (simp_all add: geometry_def)
  have off: "truthy_list (sel_prefix kw) = False" "truthy_list (sel_suffix kw) = False"
    "truthy_list (sel_names kw) = False"
    using assms by simp_all
  show ?thesis
    unfolding select_ports_def Let_def off if_False fields sort_ports_geometry [symmetric]
    by (rule refl)
qed

lemma facing_side_sort_set_names:
  "facing_side_sort (set_names plan P) = facing_side_sort P"
  using facing_side_sort_geometry [of "set_names plan P"] facing_side_sort_geometry [of P]
  by (simp add: geometry_view)

lemma classify_set_names:
  "classify_by_orientation (set_names plan P) = classify_by_orientation P"
  using classify_by_orientation_geometry [of "set_names plan P"]
    classify_by_orientation_geometry [of P]
  by (simp add: geometry_view)

lemma select_ports_set_names:
  assumes "\<not> truthy_list (sel_prefix kw)" and "\<not> truthy_list (sel_suffix kw)"
    and "\<not> truthy_list (sel_names kw)"
  shows "select_ports (set_names plan P) ports kw = select_ports P ports kw"
  using select_ports_geometry [OF assms, of "set_names plan P" ports]
    select_ports_geometry [OF assms, of P ports]
  by (simp add: geometry_view)

lemma port_layer_set_names: "port_layer (set_names plan P r) = port_layer (P r)"
  by (simp add: set_names_lookup split: option.splits)

lemma side_plan_set_names: "side_plan (set_names plan P) = side_plan P"
  by (simp add: side_plan_def fun_eq_iff facing_side_sort_set_names)

lemma rename_ports_facing_side_plan:
  "rename_ports_facing_side dp pre P =
     set_names (side_plan P dp pre ''E'' @ side_plan P dp pre ''N'' @
                side_plan P dp pre ''W'' @ side_plan P dp pre ''S'') P"
proof -
  have step: "assign_names (pre @ d) 0 (facing_side_sort Q d (dp d)) Q =
      set_names (side_plan Q dp pre d) Q" for d and Q :: "'a \<Rightarrow> Port"
    by (simp add: assign_names_plan side_plan_def Let_def)
  show ?thesis
    unfolding rename_ports_facing_side_def fold_simps comp_def id_def step
    by (simp only: set_names_append side_plan_set_names)
qed

lemma rename_ports_by_orientation_plan:
  "rename_ports_by_orientation P ports le kw rename_ports_facing_side pre =
     set_names
       (let dp = classify_by_orientation P
                   (filter (\<lambda>p. port_layer (P p) \<notin> set le) (select_ports P ports kw))
        in side_plan P dp pre ''E'' @ side_plan P dp pre ''N'' @
           side_plan P dp pre ''W'' @ side_plan P dp pre ''S'') P"
  by (simp add: rename_ports_by_orientation_def Let_def rename_ports_facing_side_plan)

text \<open>
  Claim C9 as stated fails when the ports are selected by name: with \<open>suffix="1"\<close> the
  first renaming turns \<open>a1\<close>, \<open>b1\<close> into \<open>oW0\<close>, \<open>oW1\<close>, and the second one selects
  only \<open>oW1\<close> and renames it \<open>oW0\<close>.
\<close>

theorem rename_idempotent_counterexample:
  "port_names (rename_ports_by_orientation example_view [0, 1] []
       (select_all\<lparr>sel_suffix := Some ''1''\<rparr>) rename_ports_facing_side ''o'') [0, 1]
     = [''oW0'', ''oW1''] \<and>
   port_names (rename_ports_by_orientation
       (rename_ports_by_orientation example_view [0, 1] []
          (select_all\<lparr>sel_suffix := Some ''1''\<rparr>) rename_ports_facing_side ''o'')
       [0, 1] [] (select_all\<lparr>sel_suffix := Some ''1''\<rparr>) rename_ports_facing_side ''o'') [0, 1]
     = [''oW0'', ''oW0'']"
  by (simp add: rename_ports_by_orientation_def select_ports_def select_all_def
      truthy_list_def truthy_num_def Let_def example_view_def example_port_def
      classify_by_orientation_filter direction_of_angle_def py_fmod_def
      rename_ports_facing_side_def facing_side_sort_def port_names_def str_nat.simps
      digit_char_def suffix_def)

text \<open>
  Claim C9, amended.  When the selection does not filter on port names (no prefix, suffix
  or names selector), \<open>rename_ports_by_orientation\<close> with \<open>_rename_ports_facing_side\<close>
  is idempotent: the second application leaves every port, and so every port name, as the
  first one made it.
\<close>

theorem rename_idempotent:
  assumes "\<not> truthy_list (sel_prefix kw)" and "\<not> truthy_list (sel_suffix kw)"
    and "\<not> truthy_list (sel_names kw)"
  shows "(let P1 = rename_ports_by_orientation P ports layers_excluded kw
                     rename_ports_facing_side pre;
              P2 = rename_ports_by_orientation P1 ports layers_excluded kw
                     rename_ports_facing_side pre
          in P2 = P1 \<and> port_names P2 ports = port_names P1 ports)"
proof -
  define plan where "plan =
      (let dp = classify_by_orientation P
                   (filter (\<lambda>p. port_layer (P p) \<notin> set layers_excluded) (select_ports P ports kw))
        in side_plan P dp pre ''E'' @ side_plan P dp pre ''N'' @
           side_plan P dp pre ''W'' @ side_plan P dp pre ''S'')"
  have one: "rename_ports_by_orientation P ports layers_excluded kw rename_ports_facing_side pre
      = set_names plan P"
    unfolding plan_def by (rule rename_ports_by_orientation_plan)
  have two: "rename_ports_by_orientation (set_names plan P) ports layers_excluded kw
      rename_ports_facing_side pre = set_names plan (set_names plan P)"
    unfolding rename_ports_by_orientation_plan plan_def [symmetric]
    by (simp only: Let_def select_ports_set_names [OF assms] port_layer_set_names
        classify_set_names side_plan_set_names plan_def)
  show ?thesis
    unfolding Let_def one two by (simp add: set_names_idem)
qed

theorem rename_idempotent_witness:
  "port_names (rename_ports_by_orientation
       (rename_ports_by_orientation example_view [0, 1] [] select_all
          rename_ports_facing_side ''o'')
       [0, 1] [] select_all rename_ports_facing_side ''o'') [0, 1]
   = port_names (rename_ports_by_orientation example_view [0, 1] [] select_all
          rename_ports_facing_side ''o'') [0, 1]"
  using rename_idempotent [of select_all example_view "[0, 1]" "[]" "''o''"]
  by (simp add: select_all_def truthy_list_def Let_def)

end
